theory Spec2Isabelle
  imports Main "HOL-Library.Multiset"
begin

section \<open>Strings\<close>

text \<open>
  JavaScript strings are modelled as \<^typ>\<open>string\<close>: lists of 8-bit code units, read as
  the Latin-1 range of JavaScript's code units, so that \<open>length\<close> is \<^verbatim>\<open>.length\<close>.
  \<open>isWhiteSpace\<close> is the part of ECMAScript's WhiteSpace and LineTerminator sets in that
  range (TAB, LF, VT, FF, CR, SP, NBSP); \<open>trim\<close> is \<^verbatim>\<open>String.prototype.trim\<close>, which the
  schema option \<^verbatim>\<open>trim: true\<close> installs as a setter.
\<close>

definition isWhiteSpace :: "char \<Rightarrow> bool" where
  "isWhiteSpace c =
     (c \<in> set [CHR 0x09, CHR 0x0A, CHR 0x0B, CHR 0x0C, CHR 0x0D, CHR 0x20, CHR 0xA0])"

definition trim :: "string \<Rightarrow> string" where
  "trim s = rev (dropWhile isWhiteSpace (rev (dropWhile isWhiteSpace s)))"

text \<open>\<^verbatim>\<open>Array.prototype.join\<close> on an array of strings.\<close>

fun join :: "string \<Rightarrow> string list \<Rightarrow> string" where
  "join sep [] = []"
| "join sep [x] = x"
| "join sep (x # y # ys) = x @ sep @ join sep (y # ys)"

text \<open>The decimal rendering of a length inside a template literal.\<close>

fun digits :: "nat \<Rightarrow> string" where
  "digits n =
     (if n < 10 then [''0123456789'' ! n]
      else digits (n div 10) @ [''0123456789'' ! (n mod 10)])"

declare digits.simps [simp del]

section \<open>JSON values and Mongoose's casts\<close>

text \<open>
  The handlers pass the values of the request body on to Mongoose as they are, so a
  field can hold any JSON value. A number is represented by the text \<^verbatim>\<open>String(n)\<close>
  gives for it. \<open>JOther\<close> is an array or an object (one without a string \<^verbatim>\<open>_id\<close>,
  which Mongoose would read as that string).
\<close>

datatype json = JNull | JBool bool | JNum string | JStr string | JOther

text \<open>
  The outcome of casting a value to the type of a schema path: the cast fails, or the
  value is \<^verbatim>\<open>null\<close> and stays \<^verbatim>\<open>null\<close>, or it yields a value of the type.
\<close>

datatype 'a casted = Uncastable | Nullish | Value 'a

text \<open>
  The cast of a \<^verbatim>\<open>String\<close> path: strings are kept, numbers and booleans are rendered by
  \<^verbatim>\<open>toString()\<close>, arrays and plain objects are refused.
\<close>

fun castString :: "json \<Rightarrow> string casted" where
  "castString JNull = Nullish"
| "castString (JStr v) = Value v"
| "castString (JNum v) = Value v"
| "castString (JBool v) = Value (if v then ''true'' else ''false'')"
| "castString JOther = Uncastable"

text \<open>
  The cast of a \<^verbatim>\<open>Boolean\<close> path: \<^verbatim>\<open>true, 'true', 1, '1', 'yes'\<close> are true,
  \<^verbatim>\<open>false, 'false', 0, '0', 'no'\<close> are false, every other value but \<^verbatim>\<open>null\<close> is
  refused.
\<close>

fun castBoolean :: "json \<Rightarrow> bool casted" where
  "castBoolean JNull = Nullish"
| "castBoolean (JBool v) = Value v"
| "castBoolean (JStr v) =
     (if v \<in> set [''true'', ''1'', ''yes''] then Value True
      else if v \<in> set [''false'', ''0'', ''no''] then Value False
      else Uncastable)"
| "castBoolean (JNum v) =
     (if v = ''1'' then Value True else if v = ''0'' then Value False else Uncastable)"
| "castBoolean JOther = Uncastable"

section \<open>The data model: \<^verbatim>\<open>todoSchema\<close>\<close>

text \<open>
  An ObjectId is an opaque 12-byte value and a Date a number of milliseconds; both are
  modelled as natural numbers. A stored document has the schema's five declared paths,
  the \<^verbatim>\<open>_id\<close> every document carries (field \<open>id'\<close>) and the \<^verbatim>\<open>updatedAt\<close> that
  \<^verbatim>\<open>timestamps: { createdAt: false, updatedAt: true }\<close> adds. The three optional
  paths can hold \<^verbatim>\<open>null\<close>, which is \<open>None\<close> here; \<^verbatim>\<open>title\<close> is required and always
  holds a string.
\<close>

type_synonym objectId = nat
type_synonym date = nat

record todo =
  id' :: objectId
  title :: string
  description :: "string option"
  status :: "bool option"
  priority :: "string option"
  createdAt :: date
  updatedAt :: date

text \<open>
  The object literal \<^verbatim>\<open>{ title, description, status, priority }\<close> that both
  \<^verbatim>\<open>createTodo\<close> and \<^verbatim>\<open>updateTodo\<close> build from the request body: each field is
  \<^verbatim>\<open>undefined\<close> (\<open>None\<close>) or the JSON value the client sent.
\<close>

record fields =
  title :: "json option"
  description :: "json option"
  status :: "json option"
  priority :: "json option"

text \<open>
  A request body: the four fields the handlers destructure, and whatever other keys
  the client sent (for instance \<^verbatim>\<open>id\<close> or \<^verbatim>\<open>createdAt\<close>), as key/value pairs.
\<close>

record body = fields +
  other :: "(string \<times> json) list"

text \<open>The query string of \<^verbatim>\<open>GET /api/todos\<close>: \<^verbatim>\<open>req.query.status\<close>, \<^verbatim>\<open>req.query.priority\<close>.\<close>

record query =
  status :: "string option"
  priority :: "string option"

text \<open>The filter object \<^verbatim>\<open>getAllTodos\<close> passes to \<^verbatim>\<open>Todo.find\<close>.\<close>

record conditions =
  status :: "bool option"
  priority :: "string option"

text \<open>
  The world the handlers run in: the \<^verbatim>\<open>todos\<close> collection in insertion order (the
  entity store), whether the connection to the database is up, the driver's ObjectId
  generator, and the system clock. The generator is a counter, so it never repeats a
  value. The clock never runs backwards: a reading of \<^verbatim>\<open>Date.now()\<close> takes the time
  elapsed since the previous reading.
\<close>

record state =
  todos :: "todo list"
  connected :: bool
  objectIds :: objectId
  clock :: date

definition ObjectId_generate :: "state \<Rightarrow> objectId \<times> state" where
  "ObjectId_generate s = (objectIds s, s\<lparr>objectIds := Suc (objectIds s)\<rparr>)"

definition Date_now :: "nat \<Rightarrow> state \<Rightarrow> date \<times> state" where
  "Date_now elapsed s = (clock s + elapsed, s\<lparr>clock := clock s + elapsed\<rparr>)"

subsection \<open>Casting, setters and validators of the schema\<close>

text \<open>
  A Mongoose \<^verbatim>\<open>ValidationError\<close> carries \<^verbatim>\<open>errors\<close>, an object from path to an error
  with a \<^verbatim>\<open>message\<close>; it is the list of (path, message) pairs in the order the errors
  were recorded. The other exceptions have other \<^verbatim>\<open>name\<close>s: \<open>CastError\<close> is thrown
  when a query or an update is given a value it cannot cast, and \<open>DriverError\<close> when
  the database does not answer.
\<close>

datatype error =
    ValidationError "(string \<times> string) list"
  | CastError
  | DriverError

text \<open>
  The four fields after casting and setters: \<^verbatim>\<open>title\<close> and \<^verbatim>\<open>description\<close> are cast
  to strings and trimmed (\<^verbatim>\<open>trim: true\<close>), \<^verbatim>\<open>status\<close> is cast to a boolean,
  \<^verbatim>\<open>priority\<close> to a string.
\<close>

record casted_fields =
  title :: "string casted option"
  description :: "string casted option"
  status :: "bool casted option"
  priority :: "string casted option"

definition castFields :: "fields \<Rightarrow> casted_fields" where
  "castFields f =
     \<lparr> casted_fields.title = map_option (\<lambda>v. map_casted trim (castString v)) (fields.title f),
       description = map_option (\<lambda>v. map_casted trim (castString v)) (fields.description f),
       status = map_option castBoolean (fields.status f),
       priority = map_option castString (fields.priority f) \<rparr>"

text \<open>The paths whose value cannot be cast, with that value, in the order of the literal.\<close>

definition castFailures :: "fields \<Rightarrow> (string \<times> json) list" where
  "castFailures f =
     (case fields.title f of
        Some v \<Rightarrow> if castString v = Uncastable then [(''title'', v)] else []
      | None \<Rightarrow> []) @
     (case fields.description f of
        Some v \<Rightarrow> if castString v = Uncastable then [(''description'', v)] else []
      | None \<Rightarrow> []) @
     (case fields.status f of
        Some v \<Rightarrow> if castBoolean v = Uncastable then [(''status'', v)] else []
      | None \<Rightarrow> []) @
     (case fields.priority f of
        Some v \<Rightarrow> if castString v = Uncastable then [(''priority'', v)] else []
      | None \<Rightarrow> [])"

text \<open>
  \<^verbatim>\<open>title\<close>: \<^verbatim>\<open>required: [true, "Title is required"]\<close> and
  \<^verbatim>\<open>minlength: [3, "Title must be at least 3 characters long"]\<close>, run on the value after
  the cast and the \<^verbatim>\<open>trim\<close> setter. The required validator of a string path rejects
  \<^verbatim>\<open>undefined\<close>, \<^verbatim>\<open>null\<close> and the empty string; a path reports its first failing
  validator only, and a path whose cast failed reports the cast failure and is not
  validated.
\<close>

definition validate_title :: "string casted option \<Rightarrow> (string \<times> string) list" where
  "validate_title v =
     (case v of
        None \<Rightarrow> [(''title'', ''Title is required'')]
      | Some Nullish \<Rightarrow> [(''title'', ''Title is required'')]
      | Some Uncastable \<Rightarrow> []
      | Some (Value t) \<Rightarrow>
          if length t = 0 then [(''title'', ''Title is required'')]
          else if length t < 3 then [(''title'', ''Title must be at least 3 characters long'')]
          else [])"

text \<open>
  \<^verbatim>\<open>priority\<close>: \<^verbatim>\<open>enum: { values: ["low", "medium", "high"], message: ... }\<close>. The enum
  validator accepts \<^verbatim>\<open>undefined\<close> and \<^verbatim>\<open>null\<close>.
\<close>

definition priority_values :: "string list" where
  "priority_values = [''low'', ''medium'', ''high'']"

definition priority_message :: string where
  \<open>priority_message = ''Priority must be one of "low", "medium", or "high"''\<close>

definition validate_priority :: "string casted option \<Rightarrow> (string \<times> string) list" where
  "validate_priority v =
     (case v of
        Some (Value p) \<Rightarrow>
          if p \<in> set priority_values then [] else [(''priority'', priority_message)]
      | _ \<Rightarrow> [])"

text \<open>Document validation runs every path's validators, in the order of the schema.\<close>

definition validate :: "casted_fields \<Rightarrow> (string \<times> string) list" where
  "validate c =
     validate_title (casted_fields.title c) @ validate_priority (casted_fields.priority c)"

text \<open>
  Update validation (\<^verbatim>\<open>runValidators: true\<close>) runs the validators of the paths the
  update sets, so \<^verbatim>\<open>title\<close> is checked only when it is supplied; it reports
  \<^verbatim>\<open>priority\<close> before \<^verbatim>\<open>title\<close>.
\<close>

definition validateUpdate :: "casted_fields \<Rightarrow> (string \<times> string) list" where
  "validateUpdate u =
     validate_priority (casted_fields.priority u) @
     (case casted_fields.title u of None \<Rightarrow> [] | Some t \<Rightarrow> validate_title (Some t))"

subsection \<open>The model \<^verbatim>\<open>Todo\<close>: the Mongoose operations the handlers call\<close>

text \<open>
  Mongoose and the database are libraries, not code of the repository. Each operation
  the handlers call is modelled on the collection held in the state, following the
  library's documented behaviour for the schema above; when the connection is down, an
  operation that has to ask the database throws \<open>DriverError\<close> instead. The text of
  the message of a failed cast varies with the library's version, so it is a parameter:
  \<open>castMessage path value\<close>.
\<close>

text \<open>
  What a new document stores for an optional path: the default when the field is
  \<^verbatim>\<open>undefined\<close>, \<^verbatim>\<open>null\<close> when it is \<^verbatim>\<open>null\<close>, the cast value otherwise.
\<close>

fun orDefault :: "'a \<Rightarrow> 'a casted option \<Rightarrow> 'a option" where
  "orDefault d None = Some d"
| "orDefault d (Some (Value v)) = Some v"
| "orDefault d (Some Nullish) = None"
| "orDefault d (Some Uncastable) = None"

text \<open>
  \<^verbatim>\<open>Todo.create(doc)\<close>: the document is constructed (a new \<^verbatim>\<open>_id\<close>, the casts and
  setters, the defaults \<^verbatim>\<open>description: ""\<close>, \<^verbatim>\<open>status: false\<close>,
  \<^verbatim>\<open>priority: "medium"\<close>, \<^verbatim>\<open>createdAt: Date.now\<close>), validated, stamped with
  \<^verbatim>\<open>updatedAt\<close> by the timestamps hook, and inserted. A failed cast is recorded when
  the document is constructed and reported with the validators' errors, before them; a
  validation error is thrown before the database is asked for anything.
\<close>

definition Todo_create ::
  "(string \<Rightarrow> json \<Rightarrow> string) \<Rightarrow> fields \<Rightarrow> nat \<Rightarrow> nat \<Rightarrow> state \<Rightarrow>
     (error + todo) \<times> state" where
  "Todo_create castMessage doc elapsed1 elapsed2 s =
     (let (i, s1) = ObjectId_generate s;
          (t1, s2) = Date_now elapsed1 s1;
          c = castFields doc;
          errors = map (\<lambda>(path, v). (path, castMessage path v)) (castFailures doc) @ validate c
      in if errors \<noteq> [] then (Inl (ValidationError errors), s2)
         else
           let (t2, s3) = Date_now elapsed2 s2;
               todo = \<lparr> id' = i,
                        title = (case casted_fields.title c of Some (Value v) \<Rightarrow> v | _ \<Rightarrow> []),
                        description = orDefault [] (casted_fields.description c),
                        status = orDefault False (casted_fields.status c),
                        priority = orDefault ''medium'' (casted_fields.priority c),
                        createdAt = t1,
                        updatedAt = t2 \<rparr>
           in if \<not> connected s3 then (Inl DriverError, s3)
              else (Inr todo, s3\<lparr>todos := todos s3 @ [todo]\<rparr>))"

text \<open>
  \<^verbatim>\<open>Todo.find(filter).sort({ createdAt: -1 })\<close>: the documents equal to the filter on
  every path the filter has, in descending order of \<^verbatim>\<open>createdAt\<close>.
\<close>

definition matches :: "conditions \<Rightarrow> todo \<Rightarrow> bool" where
  "matches c t =
     ((case conditions.status c of None \<Rightarrow> True | Some b \<Rightarrow> todo.status t = Some b) \<and>
      (case conditions.priority c of None \<Rightarrow> True | Some p \<Rightarrow> todo.priority t = Some p))"

definition sort_createdAt_desc :: "todo list \<Rightarrow> todo list" where
  "sort_createdAt_desc ts = sort_key (\<lambda>t. - int (createdAt t)) ts"

definition Todo_find_sort :: "conditions \<Rightarrow> state \<Rightarrow> error + todo list" where
  "Todo_find_sort c s =
     (if \<not> connected s then Inl DriverError
      else Inr (sort_createdAt_desc (filter (matches c) (todos s))))"

text \<open>
  The identifier syntax belongs to the driver, so it is a parameter of the model:
  \<open>cast\<close> maps a well-formed string to the ObjectId it denotes and any other string
  to \<open>None\<close>. The operations that take an id cast it before they ask the database.

  \<^verbatim>\<open>Todo.findById(id)\<close>: the document with that \<^verbatim>\<open>_id\<close>, or \<^verbatim>\<open>null\<close>.
\<close>

definition Todo_findById ::
  "(string \<Rightarrow> objectId option) \<Rightarrow> string \<Rightarrow> state \<Rightarrow> error + todo option" where
  "Todo_findById cast i s =
     (case cast i of
        None \<Rightarrow> Inl CastError
      | Some k \<Rightarrow>
          if \<not> connected s then Inl DriverError
          else Inr (find (\<lambda>t. id' t = k) (todos s)))"

fun updateOne :: "('a \<Rightarrow> bool) \<Rightarrow> ('a \<Rightarrow> 'a) \<Rightarrow> 'a list \<Rightarrow> 'a list" where
  "updateOne p f [] = []"
| "updateOne p f (x # xs) = (if p x then f x # xs else x # updateOne p f xs)"

fun deleteOne :: "('a \<Rightarrow> bool) \<Rightarrow> 'a list \<Rightarrow> 'a list" where
  "deleteOne p [] = []"
| "deleteOne p (x # xs) = (if p x then xs else x # deleteOne p xs)"

text \<open>
  What \<^verbatim>\<open>$set\<close> leaves in an optional path: the stored value when the update does not
  set the path, \<^verbatim>\<open>null\<close> when it sets \<^verbatim>\<open>null\<close>, the cast value otherwise.
\<close>

fun assign :: "'a casted option \<Rightarrow> 'a option \<Rightarrow> 'a option" where
  "assign None old = old"
| "assign (Some (Value v)) old = Some v"
| "assign (Some Nullish) old = None"
| "assign (Some Uncastable) old = old"

text \<open>The effect of \<^verbatim>\<open>{ $set: { ...updates, updatedAt: now } }\<close> on one document.\<close>

definition applyUpdate :: "casted_fields \<Rightarrow> date \<Rightarrow> todo \<Rightarrow> todo" where
  "applyUpdate u now t =
     t\<lparr> todo.title := (case casted_fields.title u of Some (Value v) \<Rightarrow> v | _ \<Rightarrow> todo.title t),
        todo.description := assign (casted_fields.description u) (todo.description t),
        todo.status := assign (casted_fields.status u) (todo.status t),
        todo.priority := assign (casted_fields.priority u) (todo.priority t),
        updatedAt := now \<rparr>"

text \<open>
  \<^verbatim>\<open>Todo.findByIdAndUpdate(id, updates, { new: true, runValidators: true })\<close>: the
  timestamps hook reads the clock; the id and the update are cast (the setters run), and
  a value that cannot be cast throws \<open>CastError\<close>; the update validators throw a
  \<^verbatim>\<open>ValidationError\<close>; all this before the database is asked for anything. Then the
  first document with that \<^verbatim>\<open>_id\<close> is modified and returned as modified
  (\<^verbatim>\<open>new: true\<close>), or \<^verbatim>\<open>null\<close> is returned when there is none.
\<close>

definition Todo_findByIdAndUpdate ::
  "(string \<Rightarrow> objectId option) \<Rightarrow> string \<Rightarrow> fields \<Rightarrow> nat \<Rightarrow> state \<Rightarrow>
     (error + todo option) \<times> state" where
  "Todo_findByIdAndUpdate cast i updates elapsed s =
     (let (now, s1) = Date_now elapsed s
      in case cast i of
           None \<Rightarrow> (Inl CastError, s1)
         | Some k \<Rightarrow>
             if castFailures updates \<noteq> [] then (Inl CastError, s1)
             else
               let u = castFields updates;
                   errors = validateUpdate u
               in if errors \<noteq> [] then (Inl (ValidationError errors), s1)
                  else if \<not> connected s1 then (Inl DriverError, s1)
                  else
                    (case find (\<lambda>t. id' t = k) (todos s1) of
                       None \<Rightarrow> (Inr None, s1)
                     | Some t \<Rightarrow>
                         (Inr (Some (applyUpdate u now t)),
                          s1\<lparr>todos :=
                               updateOne (\<lambda>t. id' t = k) (applyUpdate u now) (todos s1)\<rparr>)))"

text \<open>\<^verbatim>\<open>Todo.findByIdAndDelete(id)\<close>: removes and returns the first document with that \<^verbatim>\<open>_id\<close>.\<close>

definition Todo_findByIdAndDelete ::
  "(string \<Rightarrow> objectId option) \<Rightarrow> string \<Rightarrow> state \<Rightarrow> (error + todo option) \<times> state" where
  "Todo_findByIdAndDelete cast i s =
     (case cast i of
        None \<Rightarrow> (Inl CastError, s)
      | Some k \<Rightarrow>
          if \<not> connected s then (Inl DriverError, s)
          else
            (case find (\<lambda>t. id' t = k) (todos s) of
               None \<Rightarrow> (Inr None, s)
             | Some t \<Rightarrow>
                 (Inr (Some t), s\<lparr>todos := deleteOne (\<lambda>t. id' t = k) (todos s)\<rparr>)))"

section \<open>The controller\<close>

text \<open>
  What a handler sends: \<^verbatim>\<open>res.status(code).json(body)\<close> has a JSON body,
  \<^verbatim>\<open>res.status(code).send()\<close> has none.
\<close>

datatype data = Null | Doc todo | Docs "todo list"

record envelope =
  success :: bool
  message :: string
  data :: data

record reply =
  statusCode :: nat
  json :: "envelope option"

definition response :: "bool \<Rightarrow> string \<Rightarrow> data \<Rightarrow> envelope" where
  "response success' message' data' =
     \<lparr> success = success', message = message', data = data' \<rparr>"

definition send_json :: "nat \<Rightarrow> envelope \<Rightarrow> reply" where
  "send_json code e = \<lparr> statusCode = code, json = Some e \<rparr>"

definition send_empty :: "nat \<Rightarrow> reply" where
  "send_empty code = \<lparr> statusCode = code, json = None \<rparr>"

text \<open>
  \<^verbatim>\<open>isValidObjectId(id)\<close> is \<^verbatim>\<open>mongoose.Types.ObjectId.isValid(id)\<close>: whether the
  driver can cast the string to an ObjectId.
\<close>

definition isValidObjectId :: "(string \<Rightarrow> objectId option) \<Rightarrow> string \<Rightarrow> bool" where
  "isValidObjectId cast i = (cast i \<noteq> None)"

definition invalid_id_message :: "string \<Rightarrow> string" where
  \<open>invalid_id_message i = ''"'' @ i @ ''" is not a valid Todo ID''\<close>

subsection \<open>\<^verbatim>\<open>createTodo\<close>\<close>

definition createTodo ::
  "(string \<Rightarrow> json \<Rightarrow> string) \<Rightarrow> body \<Rightarrow> nat \<Rightarrow> nat \<Rightarrow> state \<Rightarrow> state \<times> reply" where
  "createTodo castMessage b elapsed1 elapsed2 s =
     (case Todo_create castMessage
             \<lparr> fields.title = fields.title b, description = fields.description b,
               status = fields.status b, priority = fields.priority b \<rparr>
             elapsed1 elapsed2 s of
        (Inr todo, s') \<Rightarrow>
          (s', send_json 201 (response True ''Todo created successfully'' (Doc todo)))
      | (Inl (ValidationError errors), s') \<Rightarrow>
          (s', send_json 400 (response False (join ''. '' (map snd errors)) Null))
      | (Inl _, s') \<Rightarrow>
          (s', send_json 500 (response False ''Server error while creating todo'' Null)))"

subsection \<open>\<^verbatim>\<open>getAllTodos\<close>\<close>

definition getAllTodos :: "query \<Rightarrow> state \<Rightarrow> state \<times> reply" where
  "getAllTodos q s =
     (let filter' =
            \<lparr> conditions.status =
                (case query.status q of None \<Rightarrow> None | Some v \<Rightarrow> Some (v = ''true'')),
              priority = query.priority q \<rparr>
      in case Todo_find_sort filter' s of
           Inr todos' \<Rightarrow>
             (s, send_json 200
                   (response True
                      (digits (length todos') @ '' todo(s) retrieved successfully'')
                      (Docs todos')))
         | Inl _ \<Rightarrow>
             (s, send_json 500 (response False ''Server error while retrieving todos'' Null)))"

subsection \<open>\<^verbatim>\<open>getTodoById\<close>\<close>

definition getTodoById :: "(string \<Rightarrow> objectId option) \<Rightarrow> string \<Rightarrow> state \<Rightarrow> state \<times> reply" where
  "getTodoById cast i s =
     (if \<not> isValidObjectId cast i
      then (s, send_json 400 (response False (invalid_id_message i) Null))
      else
        (case Todo_findById cast i s of
           Inr None \<Rightarrow> (s, send_json 404 (response False ''Todo not found'' Null))
         | Inr (Some todo) \<Rightarrow>
             (s, send_json 200 (response True ''Todo retrieved successfully'' (Doc todo)))
         | Inl _ \<Rightarrow>
             (s, send_json 500 (response False ''Server error while retrieving todo'' Null))))"

subsection \<open>\<^verbatim>\<open>updateTodo\<close>\<close>

definition updateTodo ::
  "(string \<Rightarrow> objectId option) \<Rightarrow> string \<Rightarrow> body \<Rightarrow> nat \<Rightarrow> state \<Rightarrow> state \<times> reply" where
  "updateTodo cast i b elapsed s =
     (if \<not> isValidObjectId cast i
      then (s, send_json 400 (response False (invalid_id_message i) Null))
      else
        let updates =
              \<lparr> fields.title = fields.title b, description = fields.description b,
                status = fields.status b, priority = fields.priority b \<rparr>
        in if fields.title updates = None \<and> fields.description updates = None \<and>
              fields.status updates = None \<and> fields.priority updates = None
           then (s, send_json 400
                      (response False ''No valid fields provided for update'' Null))
           else
             (case Todo_findByIdAndUpdate cast i updates elapsed s of
                (Inr None, s') \<Rightarrow>
                  (s', send_json 404 (response False ''Todo not found'' Null))
              | (Inr (Some todo), s') \<Rightarrow>
                  (s', send_json 200 (response True ''Todo updated successfully'' (Doc todo)))
              | (Inl (ValidationError errors), s') \<Rightarrow>
                  (s', send_json 400 (response False (join ''. '' (map snd errors)) Null))
              | (Inl _, s') \<Rightarrow>
                  (s', send_json 500
                         (response False ''Server error while updating todo'' Null))))"

subsection \<open>\<^verbatim>\<open>deleteTodo\<close>\<close>

definition deleteTodo :: "(string \<Rightarrow> objectId option) \<Rightarrow> string \<Rightarrow> state \<Rightarrow> state \<times> reply" where
  "deleteTodo cast i s =
     (if \<not> isValidObjectId cast i
      then (s, send_json 400 (response False (invalid_id_message i) Null))
      else
        (case Todo_findByIdAndDelete cast i s of
           (Inr None, s') \<Rightarrow> (s', send_json 404 (response False ''Todo not found'' Null))
         | (Inr (Some todo), s') \<Rightarrow> (s', send_empty 204)
         | (Inl _, s') \<Rightarrow>
             (s', send_json 500 (response False ''Server error while deleting todo'' Null))))"

section \<open>The routes\<close>

text \<open>
  \<^verbatim>\<open>todoRoutes.js\<close> maps the five verb and path pairs to the five handlers (the two
  validation middlewares are pass-through stubs). A request carries, besides what the
  client sends, the time that passes before each reading of the clock the handler makes.
  \<open>serve\<close> handles a sequence of requests one after the other and returns the final
  state.
\<close>

datatype request =
    POST body nat nat
  | GET_all query
  | GET string
  | PATCH string body nat
  | DELETE string

fun route ::
  "(string \<Rightarrow> json \<Rightarrow> string) \<Rightarrow> (string \<Rightarrow> objectId option) \<Rightarrow> request \<Rightarrow> state \<Rightarrow>
     state \<times> reply" where
  "route castMessage cast (POST b elapsed1 elapsed2) s = createTodo castMessage b elapsed1 elapsed2 s"
| "route castMessage cast (GET_all q) s = getAllTodos q s"
| "route castMessage cast (GET i) s = getTodoById cast i s"
| "route castMessage cast (PATCH i b elapsed) s = updateTodo cast i b elapsed s"
| "route castMessage cast (DELETE i) s = deleteTodo cast i s"

fun serve ::
  "(string \<Rightarrow> json \<Rightarrow> string) \<Rightarrow> (string \<Rightarrow> objectId option) \<Rightarrow> request list \<Rightarrow> state \<Rightarrow>
     state" where
  "serve castMessage cast [] s = s"
| "serve castMessage cast (r # rs) s = serve castMessage cast rs (fst (route castMessage cast r s))"

section \<open>Concrete requests\<close>

text \<open>
  An instance of the identifier syntax: the 24 hexadecimal digits that bson reads as an
  ObjectId, cast to the number they denote; and an instance of the message of a failed
  cast. Two small stores and a request body follow; the theorems below are exercised on
  them.
\<close>

definition hexDigit :: "char \<Rightarrow> nat option" where
  "hexDigit c =
     (let n = of_char c :: nat in
      if 48 \<le> n \<and> n \<le> 57 then Some (n - 48)
      else if 65 \<le> n \<and> n \<le> 70 then Some (n - 55)
      else if 97 \<le> n \<and> n \<le> 102 then Some (n - 87)
      else None)"

fun hexValue :: "nat \<Rightarrow> string \<Rightarrow> nat option" where
  "hexValue acc [] = Some acc"
| "hexValue acc (c # cs) =
     (case hexDigit c of None \<Rightarrow> None | Some d \<Rightarrow> hexValue (16 * acc + d) cs)"

definition hexObjectId :: "string \<Rightarrow> objectId option" where
  "hexObjectId i = (if length i = 24 then hexValue 0 i else None)"

definition castFailed :: "string \<Rightarrow> json \<Rightarrow> string" where
  "castFailed path v = ''Cast failed at path '' @ path"

definition empty_store :: state where
  "empty_store = \<lparr> todos = [], connected = True, objectIds = 0, clock = 0 \<rparr>"

definition milk :: todo where
  "milk = \<lparr> id' = 0, title = ''Buy milk'', description = Some [], status = Some False,
            priority = Some ''medium'', createdAt = 10, updatedAt = 10 \<rparr>"

definition call :: todo where
  "call = \<lparr> id' = 1, title = ''Call Bob'', description = Some ''soon'', status = Some True,
            priority = Some ''high'', createdAt = 20, updatedAt = 30 \<rparr>"

definition store :: state where
  "store = \<lparr> todos = [milk, call], connected = True, objectIds = 2, clock = 40 \<rparr>"

definition no_fields :: body where
  "no_fields = \<lparr> fields.title = None, description = None, status = None, priority = None,
                 other = [] \<rparr>"

section \<open>The specification's vocabulary\<close>


text \<open>
  The text, or the boolean, a supplied value stands for, when it stands for one: the
  value is of that type or can be cast to it, and is not \<^verbatim>\<open>null\<close>.
\<close>

definition textOf :: "json \<Rightarrow> string option" where
  "textOf v = (case castString v of Value t \<Rightarrow> Some t | _ \<Rightarrow> None)"

definition flagOf :: "json \<Rightarrow> bool option" where
  "flagOf v = (case castBoolean v of Value b \<Rightarrow> Some b | _ \<Rightarrow> None)"

text \<open>A body supplies a whitelisted field when one of the four is not \<^verbatim>\<open>undefined\<close>.\<close>

definition supplies :: "body \<Rightarrow> bool" where
  "supplies b =
     (fields.title b \<noteq> None \<or> fields.description b \<noteq> None \<or>
      fields.status b \<noteq> None \<or> fields.priority b \<noteq> None)"

text \<open>Every supplied value can be cast to the type of its path (\<^verbatim>\<open>null\<close> can).\<close>

definition castable :: "body \<Rightarrow> bool" where
  "castable b =
     ((case fields.title b of None \<Rightarrow> True | Some v \<Rightarrow> castString v \<noteq> Uncastable) \<and>
      (case fields.description b of None \<Rightarrow> True | Some v \<Rightarrow> castString v \<noteq> Uncastable) \<and>
      (case fields.status b of None \<Rightarrow> True | Some v \<Rightarrow> castBoolean v \<noteq> Uncastable) \<and>
      (case fields.priority b of None \<Rightarrow> True | Some v \<Rightarrow> castString v \<noteq> Uncastable))"

text \<open>Every supplied value stands for a text or a boolean, as its path requires.\<close>

definition plain :: "body \<Rightarrow> bool" where
  "plain b =
     ((case fields.title b of None \<Rightarrow> True | Some v \<Rightarrow> textOf v \<noteq> None) \<and>
      (case fields.description b of None \<Rightarrow> True | Some v \<Rightarrow> textOf v \<noteq> None) \<and>
      (case fields.status b of None \<Rightarrow> True | Some v \<Rightarrow> flagOf v \<noteq> None) \<and>
      (case fields.priority b of None \<Rightarrow> True | Some v \<Rightarrow> textOf v \<noteq> None))"

text \<open>
  A supplied field fails validation: the title is \<^verbatim>\<open>null\<close> or a text of trim-length
  below 3, or the priority is a text other than low, medium, high.
\<close>

definition refused :: "body \<Rightarrow> bool" where
  "refused b =
     ((case fields.title b of
         None \<Rightarrow> False
       | Some v \<Rightarrow>
           (case castString v of
              Value t \<Rightarrow> length (trim t) < 3
            | Nullish \<Rightarrow> True
            | Uncastable \<Rightarrow> False)) \<or>
      (case fields.priority b of
         None \<Rightarrow> False
       | Some v \<Rightarrow>
           (case castString v of
              Value p \<Rightarrow> p \<notin> {''low'', ''medium'', ''high''}
            | _ \<Rightarrow> False)))"

text \<open>
  A record is valid when its title has trim-length at least 3 and its priority is one of
  the three values.
\<close>

definition valid_record :: "todo \<Rightarrow> bool" where
  "valid_record t =
     (3 \<le> length (trim (todo.title t)) \<and>
      todo.priority t \<in> {Some ''low'', Some ''medium'', Some ''high''})"

text \<open>
  Overlaying the supplied fields of an update onto a stored record: each supplied field
  replaces the stored one, the text fields in the trimmed form the data model stores. A
  supplied value that stands for no text or boolean leaves \<^verbatim>\<open>null\<close> in an optional
  field (and the stored title in place).
\<close>

definition overlay :: "body \<Rightarrow> todo \<Rightarrow> todo" where
  "overlay b t =
     t\<lparr> todo.title :=
          (case Option.bind (fields.title b) textOf of
             None \<Rightarrow> todo.title t | Some v \<Rightarrow> trim v),
        todo.description :=
          (case fields.description b of
             None \<Rightarrow> todo.description t | Some v \<Rightarrow> map_option trim (textOf v)),
        todo.status :=
          (case fields.status b of None \<Rightarrow> todo.status t | Some v \<Rightarrow> flagOf v),
        todo.priority :=
          (case fields.priority b of None \<Rightarrow> todo.priority t | Some v \<Rightarrow> textOf v) \<rparr>"

text \<open>
  The envelope \<^verbatim>\<open>{success, message, data}\<close>: a reply carries it when it has a JSON
  body, \<open>success\<close> tells whether the status is below 400, and a failure has no data.
\<close>

definition enveloped :: "reply \<Rightarrow> bool" where
  "enveloped r =
     (case json r of
        None \<Rightarrow> False
      | Some e \<Rightarrow> success e = (statusCode r < 400) \<and> (success e \<or> data e = Null))"

section \<open>Properties\<close>

subsection \<open>Casting and validators\<close>

lemma validate_title_Nil [simp]:
  "(validate_title v = []) = (v = Some Uncastable \<or> (\<exists>t. v = Some (Value t) \<and> 3 \<le> length t))"
  by (auto simp: validate_title_def split: option.splits casted.splits)

lemma validate_priority_Nil [simp]:
  "(validate_priority v = []) =
     (\<forall>p. v = Some (Value p) \<longrightarrow> p \<in> {''low'', ''medium'', ''high''})"
  by (auto simp: validate_priority_def priority_values_def split: option.splits casted.splits)

lemma castFailures_Nil [simp]:
  "(castFailures f = []) =
     ((case fields.title f of None \<Rightarrow> True | Some v \<Rightarrow> castString v \<noteq> Uncastable) \<and>
      (case fields.description f of None \<Rightarrow> True | Some v \<Rightarrow> castString v \<noteq> Uncastable) \<and>
      (case fields.status f of None \<Rightarrow> True | Some v \<Rightarrow> castBoolean v \<noteq> Uncastable) \<and>
      (case fields.priority f of None \<Rightarrow> True | Some v \<Rightarrow> castString v \<noteq> Uncastable))"
  by (auto simp: castFailures_def split: option.splits)

lemma textOf_Some [simp]: "(textOf v = Some t) = (castString v = Value t)"
  by (auto simp: textOf_def split: casted.splits)

lemma textOf_None [simp]: "(textOf v = None) = (castString v = Uncastable \<or> castString v = Nullish)"
  by (auto simp: textOf_def split: casted.splits)

lemma flagOf_Some [simp]: "(flagOf v = Some t) = (castBoolean v = Value t)"
  by (auto simp: flagOf_def split: casted.splits)

lemma flagOf_None [simp]:
  "(flagOf v = None) = (castBoolean v = Uncastable \<or> castBoolean v = Nullish)"
  by (auto simp: flagOf_def split: casted.splits)

subsection \<open>Trimming and the list operations\<close>

lemma dropWhile_rev_dropWhile:
  "dropWhile P (rev (dropWhile P (rev (dropWhile P s)))) = rev (dropWhile P (rev (dropWhile P s)))"
proof (cases "dropWhile P (rev (dropWhile P s)) = []")
  case True
  show ?thesis unfolding True by simp
next
  case False
  let ?u = "dropWhile P s"
  let ?r = "rev (dropWhile P (rev ?u))"
  have "?u \<noteq> []"
  proof
    assume "?u = []"
    then have "dropWhile P (rev ?u) = []" by (simp only: rev.simps dropWhile.simps)
    with False show False ..
  qed
  then have h: "\<not> P (hd ?u)" by (rule hd_dropWhile)
  have "rev (takeWhile P (rev ?u) @ dropWhile P (rev ?u)) = ?u"
    by (simp only: takeWhile_dropWhile_id rev_rev_ident)
  then have "?u = ?r @ rev (takeWhile P (rev ?u))"
    by (simp only: rev_append)
  moreover from False have "?r \<noteq> []" by simp
  ultimately have "hd ?u = hd ?r"
    using hd_append2 [of ?r "rev (takeWhile P (rev ?u))"] by simp
  with h have "\<not> P (hd ?r)" by simp
  then show ?thesis
    by (simp only: dropWhile_eq_self_iff) simp
qed

lemma trim_trim: "trim (trim s) = trim s"
proof -
  let ?t = "dropWhile isWhiteSpace (rev (dropWhile isWhiteSpace s))"
  have a: "dropWhile isWhiteSpace (rev ?t) = rev ?t"
    by (rule dropWhile_rev_dropWhile)
  have b: "dropWhile isWhiteSpace ?t = ?t"
    by (rule dropWhile_idem)
  show ?thesis
    by (simp add: trim_def a b)
qed

lemma find_updateOne:
  "find p xs = Some x \<Longrightarrow>
   \<exists>ys zs. xs = ys @ x # zs \<and> (\<forall>y\<in>set ys. \<not> p y) \<and> updateOne p f xs = ys @ f x # zs"
proof (induction xs)
  case Nil
  then show ?case by simp
next
  case (Cons a xs)
  show ?case
  proof (cases "p a")
    case True
    with Cons.prems have "a = x" by simp
    with True have "a # xs = [] @ x # xs \<and> (\<forall>y\<in>set []. \<not> p y) \<and> updateOne p f (a # xs) = [] @ f x # xs"
      by simp
    then show ?thesis by blast
  next
    case False
    with Cons obtain ys zs where "xs = ys @ x # zs" "\<forall>y\<in>set ys. \<not> p y" "updateOne p f xs = ys @ f x # zs"
      by auto
    with False have "a # xs = (a # ys) @ x # zs \<and> (\<forall>y\<in>set (a # ys). \<not> p y) \<and> updateOne p f (a # xs) = (a # ys) @ f x # zs"
      by simp
    then show ?thesis by blast
  qed
qed

lemma find_Some_holds: "find p xs = Some x \<Longrightarrow> p x \<and> x \<in> set xs"
  by (induction xs) (auto split: if_splits)

lemma list_all2_updateOne:
  "(\<And>x. R (f x) x) \<Longrightarrow> (\<And>x. R x x) \<Longrightarrow> list_all2 R (updateOne p f xs) xs"
  by (induction xs) (auto simp: list_all2_same)

subsection \<open>Create\<close>

text \<open>
  C1, as stated, fails: a creation input whose title has trim-length 8 and whose
  priority is \<^verbatim>\<open>"urgent"\<close> is answered 400 with the enum's message, and nothing is
  stored.
\<close>

theorem createTodo_bad_priority_rejected:
  "3 \<le> length (trim ''Buy milk'') \<and>
   createTodo castFailed
       (no_fields\<lparr> fields.title := Some (JStr ''Buy milk''),
                    fields.priority := Some (JStr ''urgent'') \<rparr>)
       1 1 empty_store =
     (empty_store\<lparr> objectIds := 1, clock := 1 \<rparr>,
      send_json 400 (response False priority_message Null))"
  by (simp add: createTodo_def Todo_create_def ObjectId_generate_def Date_now_def
      castFields_def castFailures_def validate_def validate_title_def validate_priority_def
      priority_values_def no_fields_def empty_store_def trim_def isWhiteSpace_def)

text \<open>
  C1, amended: for every creation input whose title stands for a text of trim-length at
  least 3, whose priority, when supplied, is one of low, medium, high, and whose
  description and status, when supplied, stand for a text and for a boolean, and with
  the database connection up, \<open>createTodo\<close> answers 201 with the stored record: its
  title is the trimmed text, its id is the generator's next ObjectId, \<open>createdAt\<close> and
  \<open>updatedAt\<close> are the clock's readings, and every omitted optional field has its
  default (empty description, status false, priority medium). The record is appended to
  the collection.
\<close>

theorem createTodo_created:
  assumes "Option.bind (fields.title b) textOf = Some t" and "3 \<le> length (trim t)"
    and "case fields.priority b of
           None \<Rightarrow> True
         | Some v \<Rightarrow> textOf v \<in> {Some ''low'', Some ''medium'', Some ''high''}"
    and "case fields.description b of None \<Rightarrow> True | Some v \<Rightarrow> textOf v \<noteq> None"
    and "case fields.status b of None \<Rightarrow> True | Some v \<Rightarrow> flagOf v \<noteq> None"
    and "connected s"
  shows "createTodo castMessage b elapsed1 elapsed2 s =
           (let todo =
                  \<lparr> id' = objectIds s,
                    title = trim t,
                    description =
                      (case fields.description b of
                         None \<Rightarrow> Some []
                       | Some v \<Rightarrow> map_option trim (textOf v)),
                    status = (case fields.status b of None \<Rightarrow> Some False | Some v \<Rightarrow> flagOf v),
                    priority =
                      (case fields.priority b of None \<Rightarrow> Some ''medium'' | Some v \<Rightarrow> textOf v),
                    createdAt = clock s + elapsed1,
                    updatedAt = clock s + elapsed1 + elapsed2 \<rparr>
            in (s\<lparr> todos := todos s @ [todo], objectIds := Suc (objectIds s),
                   clock := clock s + elapsed1 + elapsed2 \<rparr>,
                send_json 201 (response True ''Todo created successfully'' (Doc todo))))"
proof -
  let ?f = "\<lparr> fields.title = fields.title b, description = fields.description b,
               status = fields.status b, priority = fields.priority b \<rparr>"
  from assms(1) obtain v where tv: "fields.title b = Some v" "castString v = Value t"
    by (cases "fields.title b") auto
  from assms(3,4,5) tv have nf: "castFailures ?f = []"
    by (auto split: option.splits)
  from assms(2,3) tv have va: "validate (castFields ?f) = []"
    by (auto simp: validate_def castFields_def split: option.splits)
  have d: "orDefault [] (casted_fields.description (castFields ?f)) =
      (case fields.description b of None \<Rightarrow> Some [] | Some v \<Rightarrow> map_option trim (textOf v))"
    using assms(4) by (auto simp: castFields_def textOf_def split: option.splits casted.splits)
  have st: "orDefault False (casted_fields.status (castFields ?f)) =
      (case fields.status b of None \<Rightarrow> Some False | Some v \<Rightarrow> flagOf v)"
    using assms(5) by (auto simp: castFields_def flagOf_def split: option.splits casted.splits)
  have p: "orDefault ''medium'' (casted_fields.priority (castFields ?f)) =
      (case fields.priority b of None \<Rightarrow> Some ''medium'' | Some v \<Rightarrow> textOf v)"
    using assms(3) by (auto simp: castFields_def textOf_def split: option.splits casted.splits)
  have ti: "casted_fields.title (castFields ?f) = Some (Value (trim t))"
    using tv by (simp add: castFields_def)
  show ?thesis
    using nf va assms(6)
    by (simp add: createTodo_def Todo_create_def ObjectId_generate_def Date_now_def Let_def
        d st p ti)
qed

theorem createTodo_created_witness:
  "Option.bind (fields.title (no_fields\<lparr> fields.title := Some (JStr ''  Buy milk ''),
                                             fields.status := Some (JStr ''yes'') \<rparr>)) textOf =
     Some ''  Buy milk '' \<and>
   3 \<le> length (trim ''  Buy milk '') \<and> flagOf (JStr ''yes'') = Some True \<and> connected store \<and>
   createTodo castFailed
       (no_fields\<lparr> fields.title := Some (JStr ''  Buy milk ''),
                    fields.status := Some (JStr ''yes'') \<rparr>) 5 1 store =
     (store\<lparr> todos := [milk, call,
                        \<lparr> id' = 2, title = ''Buy milk'', description = Some [],
                          status = Some True, priority = Some ''medium'', createdAt = 45,
                          updatedAt = 46 \<rparr>],
             objectIds := 3, clock := 46 \<rparr>,
      send_json 201
        (response True ''Todo created successfully''
           (Doc \<lparr> id' = 2, title = ''Buy milk'', description = Some [], status = Some True,
                  priority = Some ''medium'', createdAt = 45, updatedAt = 46 \<rparr>)))"
  using createTodo_created
    [of "no_fields\<lparr> fields.title := Some (JStr ''  Buy milk ''),
                     fields.status := Some (JStr ''yes'') \<rparr>"
        "''  Buy milk ''" store castFailed 5 1]
  by (simp add: no_fields_def store_def trim_def isWhiteSpace_def Let_def flagOf_def textOf_def)



subsection \<open>List\<close>








text \<open>
  C10: with the database connection up, when the \<^verbatim>\<open>status\<close> query parameter is
  present, whatever string it is, \<open>getAllTodos\<close> answers 200 (never an
  invalid-parameter error), and the records it returns are those whose stored status
  is true when the parameter is the string \<^verbatim>\<open>"true"\<close>, and those whose stored status is
  false for any other string (among the records matching the priority filter, when that
  is supplied too).
\<close>

theorem getAllTodos_status_parameter:
  assumes "connected s" and "query.status q = Some v"
  shows "\<exists>found.
           snd (getAllTodos q s) =
             send_json 200
               (response True (digits (length found) @ '' todo(s) retrieved successfully'')
                  (Docs found)) \<and>
           set found =
             {t \<in> set (todos s).
                todo.status t = Some (v = ''true'') \<and>
                (case query.priority q of None \<Rightarrow> True | Some p \<Rightarrow> todo.priority t = Some p)}"
proof -
  let ?c = "\<lparr> conditions.status = Some (v = ''true''), priority = query.priority q \<rparr>"
  let ?found = "sort_createdAt_desc (filter (matches ?c) (todos s))"
  have "snd (getAllTodos q s) =
          send_json 200
            (response True (digits (length ?found) @ '' todo(s) retrieved successfully'')
               (Docs ?found))"
    using assms by (simp add: getAllTodos_def Todo_find_sort_def Let_def)
  moreover have "set ?found =
      {t \<in> set (todos s).
         todo.status t = Some (v = ''true'') \<and>
         (case query.priority q of None \<Rightarrow> True | Some p \<Rightarrow> todo.priority t = Some p)}"
    by (auto simp: sort_createdAt_desc_def matches_def split: option.splits)
  ultimately show ?thesis by blast
qed

theorem getAllTodos_status_parameter_witness:
  "connected store \<and>
   (\<exists>found.
      snd (getAllTodos \<lparr> query.status = Some ''banana'', priority = None \<rparr> store) =
        send_json 200
          (response True (digits (length found) @ '' todo(s) retrieved successfully'')
             (Docs found)) \<and>
      set found = {milk}) \<and>
   (\<exists>found.
      snd (getAllTodos \<lparr> query.status = Some ''true'', priority = None \<rparr> store) =
        send_json 200
          (response True (digits (length found) @ '' todo(s) retrieved successfully'')
             (Docs found)) \<and>
      set found = {call})"
proof -
  have c: "connected store"
    by (simp add: store_def)
  have f: "{t \<in> set (todos store). todo.status t = Some False} = {milk}"
    by (auto simp: store_def milk_def call_def)
  have t: "{t \<in> set (todos store). todo.status t = Some True} = {call}"
    by (auto simp: store_def milk_def call_def)
  from getAllTodos_status_parameter
    [OF c, of "\<lparr> query.status = Some ''banana'', priority = None \<rparr>" "''banana''"]
    getAllTodos_status_parameter
    [OF c, of "\<lparr> query.status = Some ''true'', priority = None \<rparr>" "''true''"]
  show ?thesis
    using c by (simp add: f t)
qed

subsection \<open>Identifiers\<close>

lemma castFailures_castable:
  "(castFailures
      \<lparr> fields.title = fields.title b, description = fields.description b,
        status = fields.status b, priority = fields.priority b \<rparr> = []) = castable b"
  by (simp add: castable_def)

lemma validateUpdate_refused:
  assumes "castable b"
  shows "(validateUpdate (castFields
            \<lparr> fields.title = fields.title b, description = fields.description b,
              status = fields.status b, priority = fields.priority b \<rparr>) = []) =
         (\<not> refused b)"
proof -
  have t: "((case fields.title b of
             None \<Rightarrow> []
           | Some v \<Rightarrow> validate_title (Some (map_casted trim (castString v)))) = []) =
        (\<not> (case fields.title b of
              None \<Rightarrow> False
            | Some v \<Rightarrow>
                (case castString v of
                   Value t \<Rightarrow> length (trim t) < 3
                 | Nullish \<Rightarrow> True
                 | Uncastable \<Rightarrow> False)))"
    using assms by (auto simp: castable_def split: option.splits casted.splits)
  have p: "(validate_priority (map_option castString (fields.priority b)) = []) =
        (\<not> (case fields.priority b of
              None \<Rightarrow> False
            | Some v \<Rightarrow>
                (case castString v of
                   Value p \<Rightarrow> p \<notin> {''low'', ''medium'', ''high''}
                 | _ \<Rightarrow> False)))"
    by (auto split: option.splits casted.splits)
  have "(validateUpdate (castFields
            \<lparr> fields.title = fields.title b, description = fields.description b,
              status = fields.status b, priority = fields.priority b \<rparr>) = []) =
        ((validate_priority (map_option castString (fields.priority b)) = []) \<and>
         ((case fields.title b of
             None \<Rightarrow> []
           | Some v \<Rightarrow> validate_title (Some (map_casted trim (castString v)))) = []))"
    by (simp add: validateUpdate_def castFields_def split: option.splits)
  then show ?thesis
    unfolding t p refused_def by blast
qed

lemma supplies_not_empty:
  "supplies b \<Longrightarrow>
   (fields.title b = None \<and> fields.description b = None \<and>
    fields.status b = None \<and> fields.priority b = None) = False"
  by (auto simp: supplies_def)



lemma updateTodo_refused:
  assumes "cast i = Some k" and "supplies b" and "castable b" and "refused b"
  shows "updateTodo cast i b elapsed s =
           (s\<lparr> clock := clock s + elapsed \<rparr>,
            send_json 400
              (response False
                 (join ''. ''
                    (map snd
                       (validateUpdate (castFields
                          \<lparr> fields.title = fields.title b, description = fields.description b,
                            status = fields.status b, priority = fields.priority b \<rparr>))))
                 Null))"
proof -
  from assms(3) have nf: "castFailures
      \<lparr> fields.title = fields.title b, description = fields.description b,
        status = fields.status b, priority = fields.priority b \<rparr> = []"
    using castFailures_castable [of b] by blast
  from assms(3,4) have bad: "validateUpdate (castFields
      \<lparr> fields.title = fields.title b, description = fields.description b,
        status = fields.status b, priority = fields.priority b \<rparr>) \<noteq> []"
    using validateUpdate_refused [of b] by blast
  show ?thesis
    by (simp add: updateTodo_def isValidObjectId_def Todo_findByIdAndUpdate_def
        Date_now_def Let_def assms(1) supplies_not_empty [OF assms(2)] nf bad
        del: castFailures_Nil)
qed

lemma updateTodo_accepted:
  assumes "cast i = Some k" and "supplies b" and "castable b" and "\<not> refused b"
    and "connected s"
  shows "updateTodo cast i b elapsed s =
           (let u = castFields
                      \<lparr> fields.title = fields.title b, description = fields.description b,
                        status = fields.status b, priority = fields.priority b \<rparr>;
                now = clock s + elapsed
            in case find (\<lambda>t. id' t = k) (todos s) of
                 None \<Rightarrow>
                   (s\<lparr> clock := now \<rparr>, send_json 404 (response False ''Todo not found'' Null))
               | Some t \<Rightarrow>
                   (s\<lparr> clock := now,
                       todos := updateOne (\<lambda>t. id' t = k) (applyUpdate u now) (todos s) \<rparr>,
                    send_json 200
                      (response True ''Todo updated successfully'' (Doc (applyUpdate u now t)))))"
proof -
  from assms(3) have nf: "castFailures
      \<lparr> fields.title = fields.title b, description = fields.description b,
        status = fields.status b, priority = fields.priority b \<rparr> = []"
    using castFailures_castable [of b] by blast
  from assms(3,4) have ok: "validateUpdate (castFields
      \<lparr> fields.title = fields.title b, description = fields.description b,
        status = fields.status b, priority = fields.priority b \<rparr>) = []"
    using validateUpdate_refused [of b] by blast
  show ?thesis
    by (simp add: updateTodo_def isValidObjectId_def Todo_findByIdAndUpdate_def
        Date_now_def Let_def assms(1,5) supplies_not_empty [OF assms(2)] nf ok
        del: castFailures_Nil split: option.splits)
qed




text \<open>
  C7: for every update request with a well-formed identifier whose body has none of the
  fields title, description, status, priority (whatever other keys it has),
  \<open>updateTodo\<close> answers 400 "No valid fields provided for update" and the state is
  unchanged, whether or not a record with that identifier exists.
\<close>

theorem updateTodo_no_fields:
  assumes "isValidObjectId cast i"
    and "fields.title b = None" and "fields.description b = None"
    and "fields.status b = None" and "fields.priority b = None"
  shows "updateTodo cast i b elapsed s =
           (s, send_json 400 (response False ''No valid fields provided for update'' Null))"
  using assms by (auto simp: updateTodo_def isValidObjectId_def)

theorem updateTodo_no_fields_witness:
  "isValidObjectId hexObjectId ''000000000000000000000001'' \<and>
   updateTodo hexObjectId ''000000000000000000000001''
       (no_fields\<lparr> other := [(''id'', JStr ''7''), (''createdAt'', JNum ''0'')] \<rparr>) 1 store =
     (store, send_json 400 (response False ''No valid fields provided for update'' Null))"
proof -
  have v: "isValidObjectId hexObjectId ''000000000000000000000001''"
    by (simp add: isValidObjectId_def hexObjectId_def hexDigit_def)
  from updateTodo_no_fields
    [OF v, of "no_fields\<lparr> other := [(''id'', JStr ''7''), (''createdAt'', JNum ''0'')] \<rparr>" 1 store]
  show ?thesis
    using v by (simp add: no_fields_def)
qed

subsection \<open>Update\<close>

lemma applyUpdate_overlay:
  assumes "plain b"
  shows "applyUpdate (castFields
      \<lparr> fields.title = fields.title b, description = fields.description b,
        status = fields.status b, priority = fields.priority b \<rparr>) now old =
   (overlay b old)\<lparr> updatedAt := now \<rparr>"
  using assms
  by (auto simp: applyUpdate_def castFields_def overlay_def plain_def textOf_def flagOf_def
      split: option.splits casted.splits)

lemma plain_castable: "plain b \<Longrightarrow> castable b"
  by (auto simp: plain_def castable_def split: option.splits)

lemma valid_overlay_iff:
  assumes "valid_record old" and "plain b"
  shows "valid_record (overlay b old) = (\<not> refused b)"
  using assms
  by (auto simp: valid_record_def overlay_def refused_def plain_def textOf_def trim_trim
      split: option.splits casted.splits)

text \<open>
  C5, as stated, fails. The update validates the supplied fields, not the overlaid
  record: on a stored record whose priority is \<^verbatim>\<open>null\<close>, an update that supplies only
  \<open>status\<close> is answered 200 although the overlaid record has no valid priority. And
  an update whose status cannot be cast to a boolean is answered 500: neither a 400
  nor the merged record.
\<close>

theorem updateTodo_validates_supplied_fields_only:
  "\<not> valid_record
       (overlay (no_fields\<lparr> fields.status := Some (JBool False) \<rparr>) (call\<lparr> todo.priority := None \<rparr>)) \<and>
   updateTodo hexObjectId ''000000000000000000000001''
       (no_fields\<lparr> fields.status := Some (JBool False) \<rparr>) 5
       (store\<lparr> todos := [milk, call\<lparr> todo.priority := None \<rparr>] \<rparr>) =
     (store\<lparr> todos :=
               [milk, call\<lparr> todo.priority := None, todo.status := Some False,
                            updatedAt := 45 \<rparr>],
             clock := 45 \<rparr>,
      send_json 200
        (response True ''Todo updated successfully''
           (Doc (call\<lparr> todo.priority := None, todo.status := Some False,
                        updatedAt := 45 \<rparr>)))) \<and>
   updateTodo hexObjectId ''000000000000000000000001''
       (no_fields\<lparr> fields.status := Some (JStr ''banana'') \<rparr>) 5 store =
     (store\<lparr> clock := 45 \<rparr>,
      send_json 500 (response False ''Server error while updating todo'' Null))"
  by (simp add: updateTodo_def isValidObjectId_def Todo_findByIdAndUpdate_def Date_now_def
      castFields_def castFailures_def validateUpdate_def validate_priority_def applyUpdate_def
      valid_record_def overlay_def flagOf_def
      hexObjectId_def hexDigit_def no_fields_def store_def milk_def call_def
      del: castFailures_Nil)

text \<open>
  C5, amended: with the database connection up, for every stored record (\<open>old\<close>, the
  record the identifier denotes) and every update that supplies at least one of the
  four fields and whose supplied values stand for texts and a boolean as their fields
  require: if a supplied title has trim-length below 3 or a supplied priority is outside
  low, medium, high, \<open>updateTodo\<close> answers 400 with a failure envelope and the
  collection is unchanged; otherwise the stored record with the supplied fields overlaid
  and \<open>updatedAt\<close> set to the clock's new reading replaces \<open>old\<close> in the collection
  and is returned with status 200. Only the supplied fields are validated; when the
  stored record is valid, that is the same as validating the overlaid record.
\<close>

theorem updateTodo_validates_merge:
  assumes "cast i = Some k" and "connected s"
    and "find (\<lambda>t. id' t = k) (todos s) = Some old"
    and "supplies b" and "plain b"
  shows "(valid_record old \<longrightarrow> valid_record (overlay b old) = (\<not> refused b)) \<and>
         (if refused b
          then \<exists>m. updateTodo cast i b elapsed s =
                  (s\<lparr> clock := clock s + elapsed \<rparr>, send_json 400 (response False m Null))
          else \<exists>before after.
                 todos s = before @ old # after \<and> (\<forall>t\<in>set before. id' t \<noteq> k) \<and>
                 updateTodo cast i b elapsed s =
                   (s\<lparr> clock := clock s + elapsed,
                       todos :=
                         before @ (overlay b old)\<lparr> updatedAt := clock s + elapsed \<rparr> # after \<rparr>,
                    send_json 200
                      (response True ''Todo updated successfully''
                         (Doc ((overlay b old)\<lparr> updatedAt := clock s + elapsed \<rparr>)))))"
proof -
  let ?u = "castFields
      \<lparr> fields.title = fields.title b, description = fields.description b,
        status = fields.status b, priority = fields.priority b \<rparr>"
  let ?new = "(overlay b old)\<lparr> updatedAt := clock s + elapsed \<rparr>"
  have c: "castable b"
    using assms(5) by (rule plain_castable)
  have v: "valid_record old \<longrightarrow> valid_record (overlay b old) = (\<not> refused b)"
    using assms(5) by (simp add: valid_overlay_iff)
  have r: "if refused b
          then \<exists>m. updateTodo cast i b elapsed s =
                  (s\<lparr> clock := clock s + elapsed \<rparr>, send_json 400 (response False m Null))
          else \<exists>before after.
                 todos s = before @ old # after \<and> (\<forall>t\<in>set before. id' t \<noteq> k) \<and>
                 updateTodo cast i b elapsed s =
                   (s\<lparr> clock := clock s + elapsed, todos := before @ ?new # after \<rparr>,
                    send_json 200 (response True ''Todo updated successfully'' (Doc ?new)))"
  proof (cases "refused b")
    case True
    with updateTodo_refused [of cast i k b elapsed s] assms(1,4) c show ?thesis
      by auto
  next
    case False
    from find_updateOne [OF assms(3), of "applyUpdate ?u (clock s + elapsed)"]
    obtain before after where
      parts: "todos s = before @ old # after" "\<forall>t\<in>set before. id' t \<noteq> k"
        "updateOne (\<lambda>t. id' t = k) (applyUpdate ?u (clock s + elapsed)) (todos s) =
           before @ ?new # after"
      by (auto simp: applyUpdate_overlay [OF assms(5)])
    from updateTodo_accepted [of cast i k b s elapsed] assms(1,4,2) c False
    have "updateTodo cast i b elapsed s =
            (s\<lparr> clock := clock s + elapsed, todos := before @ ?new # after \<rparr>,
             send_json 200 (response True ''Todo updated successfully'' (Doc ?new)))"
      by (simp add: Let_def assms(3) parts(3) applyUpdate_overlay [OF assms(5)])
    with parts(1,2) False show ?thesis
      by auto
  qed
  from v r show ?thesis ..
qed

theorem updateTodo_validates_merge_witness:
  "hexObjectId ''000000000000000000000001'' = Some 1 \<and> connected store \<and>
   find (\<lambda>t. id' t = 1) (todos store) = Some call \<and>
   supplies (no_fields\<lparr> fields.title := Some (JStr '' Call Alice ''),
                        fields.priority := Some (JStr ''low'') \<rparr>) \<and>
   plain (no_fields\<lparr> fields.title := Some (JStr '' Call Alice ''),
                     fields.priority := Some (JStr ''low'') \<rparr>) \<and>
   updateTodo hexObjectId ''000000000000000000000001''
       (no_fields\<lparr> fields.title := Some (JStr '' Call Alice ''),
                    fields.priority := Some (JStr ''low'') \<rparr>)
       5 store =
     (store\<lparr> clock := 45,
             todos :=
               [milk, call\<lparr> todo.title := ''Call Alice'', todo.priority := Some ''low'',
                            updatedAt := 45 \<rparr>] \<rparr>,
      send_json 200
        (response True ''Todo updated successfully''
           (Doc (call\<lparr> todo.title := ''Call Alice'', todo.priority := Some ''low'',
                        updatedAt := 45 \<rparr>)))) \<and>
   refused (no_fields\<lparr> fields.title := Some (JStr '' ab '') \<rparr>) \<and>
   (\<exists>m. updateTodo hexObjectId ''000000000000000000000001''
           (no_fields\<lparr> fields.title := Some (JStr '' ab '') \<rparr>) 5 store =
         (store\<lparr> clock := 45 \<rparr>, send_json 400 (response False m Null)))"
proof -
  let ?good = "no_fields\<lparr> fields.title := Some (JStr '' Call Alice ''),
                           fields.priority := Some (JStr ''low'') \<rparr>"
  let ?bad = "no_fields\<lparr> fields.title := Some (JStr '' ab '') \<rparr>"
  have i: "hexObjectId ''000000000000000000000001'' = Some 1"
    by (simp add: hexObjectId_def hexDigit_def)
  have c: "connected store" and k: "clock store = 40" and ts: "todos store = [milk, call]"
    by (simp_all add: store_def)
  have f: "find (\<lambda>t. id' t = 1) (todos store) = Some call"
    by (simp add: store_def milk_def call_def)
  have g: "supplies ?good \<and> plain ?good \<and> \<not> refused ?good"
    by (simp add: supplies_def plain_def refused_def no_fields_def trim_def isWhiteSpace_def)
  have o: "overlay ?good call =
      call\<lparr> todo.title := ''Call Alice'', todo.priority := Some ''low'' \<rparr>"
    by (simp add: overlay_def no_fields_def call_def trim_def isWhiteSpace_def textOf_def)
  have n: "supplies ?bad \<and> plain ?bad \<and> refused ?bad"
    by (simp add: supplies_def plain_def refused_def no_fields_def trim_def isWhiteSpace_def)
  from updateTodo_validates_merge
    [of hexObjectId "''000000000000000000000001''" 1 store call ?good 5] i c f g
  obtain before after where
    p: "[milk, call] = before @ call # after" "\<forall>t\<in>set before. id' t \<noteq> 1"
    and r: "updateTodo hexObjectId ''000000000000000000000001'' ?good 5 store =
          (store\<lparr> clock := clock store + 5,
                  todos := before @ (overlay ?good call)\<lparr> updatedAt := clock store + 5 \<rparr> # after \<rparr>,
           send_json 200
             (response True ''Todo updated successfully''
                (Doc ((overlay ?good call)\<lparr> updatedAt := clock store + 5 \<rparr>))))"
    by (auto simp: ts)
  from p have "before = [milk] \<and> after = []"
    by (auto simp: Cons_eq_append_conv milk_def call_def)
  with r have good: "updateTodo hexObjectId ''000000000000000000000001'' ?good 5 store =
     (store\<lparr> clock := 45,
             todos :=
               [milk, call\<lparr> todo.title := ''Call Alice'', todo.priority := Some ''low'',
                            updatedAt := 45 \<rparr>] \<rparr>,
      send_json 200
        (response True ''Todo updated successfully''
           (Doc (call\<lparr> todo.title := ''Call Alice'', todo.priority := Some ''low'',
                        updatedAt := 45 \<rparr>))))"
    by (simp add: o k)
  from updateTodo_validates_merge
    [of hexObjectId "''000000000000000000000001''" 1 store call ?bad 5] i c f n
  have bad: "\<exists>m. updateTodo hexObjectId ''000000000000000000000001'' ?bad 5 store =
         (store\<lparr> clock := 45 \<rparr>, send_json 400 (response False m Null))"
    by (simp add: k)
  from i c f g good n bad show ?thesis
    by blast
qed

text \<open>
  C6, as stated, fails in its last clause: \<open>updatedAt\<close> is a field no request
  supplies through the whitelist, and a successful update does not leave it at its
  previous value. Here an update that supplies only \<open>status\<close> moves it from 30 to 45.
\<close>

theorem updateTodo_refreshes_updatedAt:
  "find (\<lambda>t. id' t = 1) (todos store) = Some call \<and> updatedAt call = 30 \<and>
   map updatedAt
     (todos (fst (updateTodo hexObjectId ''000000000000000000000001''
                    (no_fields\<lparr> fields.status := Some (JBool False) \<rparr>) 5 store))) = [10, 45]"
  by (simp add: updateTodo_def isValidObjectId_def Todo_findByIdAndUpdate_def Date_now_def
      castFields_def castFailures_def validateUpdate_def validate_priority_def applyUpdate_def
      hexObjectId_def hexDigit_def no_fields_def store_def milk_def call_def
      del: castFailures_Nil)

text \<open>
  C6, amended: for every update request, the keys of the body other than title,
  description, status and priority (id and createdAt among them) have no effect at all
  on what \<open>updateTodo\<close> does; and after any update the collection holds the same
  records in the same places, each with the id and the \<open>createdAt\<close> it had, and with
  its previous value in each of the four fields title, description, status, priority
  that the request did not supply. (\<open>updatedAt\<close> is the one field an update changes
  without its being supplied.)
\<close>

theorem updateTodo_frame:
  "updateTodo cast i (b\<lparr> other := x \<rparr>) elapsed s = updateTodo cast i b elapsed s \<and>
   list_all2
     (\<lambda>t' t. id' t' = id' t \<and> createdAt t' = createdAt t \<and>
        (fields.title b = None \<longrightarrow> todo.title t' = todo.title t) \<and>
        (fields.description b = None \<longrightarrow> todo.description t' = todo.description t) \<and>
        (fields.status b = None \<longrightarrow> todo.status t' = todo.status t) \<and>
        (fields.priority b = None \<longrightarrow> todo.priority t' = todo.priority t))
     (todos (fst (updateTodo cast i b elapsed s))) (todos s)"
proof -
  let ?R = "\<lambda>t' t. id' t' = id' t \<and> createdAt t' = createdAt t \<and>
        (fields.title b = None \<longrightarrow> todo.title t' = todo.title t) \<and>
        (fields.description b = None \<longrightarrow> todo.description t' = todo.description t) \<and>
        (fields.status b = None \<longrightarrow> todo.status t' = todo.status t) \<and>
        (fields.priority b = None \<longrightarrow> todo.priority t' = todo.priority t)"
  let ?f = "\<lparr> fields.title = fields.title b, description = fields.description b,
        status = fields.status b, priority = fields.priority b \<rparr>"
  have same: "list_all2 ?R (todos s) (todos s)"
    by (simp add: list_all2_same)
  have upd: "list_all2 ?R (updateOne p (applyUpdate (castFields ?f) now) (todos s)) (todos s)"
    for p now
    by (rule list_all2_updateOne) (auto simp: applyUpdate_def castFields_def)
  have st: "todos (snd (Todo_findByIdAndUpdate cast i ?f elapsed s)) = todos s \<or>
      (\<exists>p now. todos (snd (Todo_findByIdAndUpdate cast i ?f elapsed s)) =
         updateOne p (applyUpdate (castFields ?f) now) (todos s))"
    by (auto simp: Todo_findByIdAndUpdate_def Date_now_def Let_def
        simp del: castFailures_Nil split: option.splits)
  have "fst (updateTodo cast i b elapsed s) = s \<or>
      fst (updateTodo cast i b elapsed s) = snd (Todo_findByIdAndUpdate cast i ?f elapsed s)"
    by (simp add: updateTodo_def Let_def split: prod.splits sum.splits error.splits option.splits)
  with st same upd have "list_all2 ?R (todos (fst (updateTodo cast i b elapsed s))) (todos s)"
    by (elim disjE exE) simp_all
  moreover have "updateTodo cast i (b\<lparr> other := x \<rparr>) elapsed s = updateTodo cast i b elapsed s"
    by (simp add: updateTodo_def)
  ultimately show ?thesis by blast
qed

theorem updateTodo_frame_witness:
  "updateTodo hexObjectId ''000000000000000000000001''
       (no_fields\<lparr> fields.status := Some (JBool False),
                    other := [(''id'', JStr ''7''), (''createdAt'', JNum ''0'')] \<rparr>) 5 store =
     updateTodo hexObjectId ''000000000000000000000001''
       (no_fields\<lparr> fields.status := Some (JBool False) \<rparr>) 5 store \<and>
   todos (fst (updateTodo hexObjectId ''000000000000000000000001''
                 (no_fields\<lparr> fields.status := Some (JBool False) \<rparr>) 5 store)) =
     [milk, call\<lparr> todo.status := Some False, updatedAt := 45 \<rparr>]"
proof -
  have "todos (fst (updateTodo hexObjectId ''000000000000000000000001''
                 (no_fields\<lparr> fields.status := Some (JBool False) \<rparr>) 5 store)) =
     [milk, call\<lparr> todo.status := Some False, updatedAt := 45 \<rparr>]"
    by (simp add: updateTodo_def isValidObjectId_def Todo_findByIdAndUpdate_def Date_now_def
        castFields_def castFailures_def validateUpdate_def validate_priority_def applyUpdate_def
        hexObjectId_def hexDigit_def no_fields_def store_def milk_def call_def
        del: castFailures_Nil)
  with updateTodo_frame
    [where cast = hexObjectId and i = "''000000000000000000000001''"
       and b = "no_fields\<lparr> fields.status := Some (JBool False) \<rparr>"
       and x = "[(''id'', JStr ''7''), (''createdAt'', JNum ''0'')]" and elapsed = 5 and s = store]
  show ?thesis
    by simp
qed

subsection \<open>The envelope\<close>

lemma enveloped_send_json [simp]:
  "enveloped (send_json code (response ok m d)) = (ok = (code < 400) \<and> (ok \<or> d = Null))"
  by (simp add: enveloped_def send_json_def response_def)

lemma not_enveloped_send_empty [simp]: "\<not> enveloped (send_empty code)"
  by (simp add: enveloped_def send_empty_def)

text \<open>
  C8, as stated, fails: a successful delete answers 204 with no body at all, so that
  outcome is not an envelope.
\<close>

theorem deleteTodo_success_has_no_body:
  "deleteTodo hexObjectId ''000000000000000000000000'' store =
     (store\<lparr> todos := [call] \<rparr>, \<lparr> statusCode = 204, json = None \<rparr>)"
  by (simp add: deleteTodo_def isValidObjectId_def Todo_findByIdAndDelete_def send_empty_def
      hexObjectId_def hexDigit_def store_def milk_def call_def)

text \<open>
  C8, amended: every outcome of create, list, get-by-id and update, and every outcome
  of delete other than the successful one, is the envelope \<^verbatim>\<open>{success, message, data}\<close>,
  with \<open>success\<close> true exactly for a status below 400 and \<open>data\<close> null on every
  failure (the 400, 404 and 500 outcomes included). The successful delete (the database
  answers and a stored record has the identifier) is a bare 204.
\<close>

theorem envelope_except_delete:
  "enveloped (snd (createTodo castMessage b elapsed1 elapsed2 s)) \<and>
   enveloped (snd (getAllTodos q s)) \<and>
   enveloped (snd (getTodoById cast i s)) \<and>
   enveloped (snd (updateTodo cast i b elapsed s)) \<and>
   (if connected s \<and> (\<exists>t\<in>set (todos s). cast i = Some (id' t))
    then snd (deleteTodo cast i s) = send_empty 204
    else enveloped (snd (deleteTodo cast i s)))"
proof -
  have c: "enveloped (snd (createTodo castMessage b elapsed1 elapsed2 s))"
    by (auto simp: createTodo_def Todo_create_def ObjectId_generate_def Date_now_def Let_def
        simp del: castFailures_Nil split: option.splits)
  have l: "enveloped (snd (getAllTodos q s))"
    by (auto simp: getAllTodos_def Todo_find_sort_def Let_def)
  have g: "enveloped (snd (getTodoById cast i s))"
    by (auto simp: getTodoById_def Todo_findById_def isValidObjectId_def split: option.splits)
  have u: "enveloped (snd (updateTodo cast i b elapsed s))"
    by (auto simp: updateTodo_def Todo_findByIdAndUpdate_def Date_now_def Let_def
        isValidObjectId_def simp del: castFailures_Nil split: option.splits)
  have d: "if connected s \<and> (\<exists>t\<in>set (todos s). cast i = Some (id' t))
    then snd (deleteTodo cast i s) = send_empty 204
    else enveloped (snd (deleteTodo cast i s))"
    by (auto simp: deleteTodo_def Todo_findByIdAndDelete_def isValidObjectId_def find_None_iff
        split: option.splits dest: find_Some_holds)
  from c l g u d show ?thesis by blast
qed

theorem envelope_except_delete_witness:
  "enveloped (snd (createTodo castFailed (no_fields\<lparr> fields.title := Some (JStr ''ab'') \<rparr>) 1 1 store)) \<and>
   enveloped (snd (getAllTodos \<lparr> query.status = None, priority = Some ''high'' \<rparr> store)) \<and>
   enveloped (snd (getTodoById hexObjectId ''42'' store)) \<and>
   enveloped (snd (updateTodo hexObjectId ''42'' no_fields 1 store)) \<and>
   connected store \<and> hexObjectId ''000000000000000000000000'' = Some (id' milk) \<and>
   snd (deleteTodo hexObjectId ''000000000000000000000000'' store) = send_empty 204 \<and>
   enveloped (snd (deleteTodo hexObjectId ''00000000000000000000002a'' store))"
proof -
  have c: "connected store" and m: "milk \<in> set (todos store)"
    by (simp_all add: store_def)
  have h: "hexObjectId ''000000000000000000000000'' = Some (id' milk)"
    by (simp add: hexObjectId_def hexDigit_def milk_def)
  have a: "\<not> (\<exists>t\<in>set (todos store). hexObjectId ''00000000000000000000002a'' = Some (id' t))"
    by (simp add: hexObjectId_def hexDigit_def store_def milk_def call_def)
  from c m h have e: "connected store \<and>
      (\<exists>t\<in>set (todos store). hexObjectId ''000000000000000000000000'' = Some (id' t))"
    by blast
  from envelope_except_delete
    [of castFailed no_fields 1 1 store "\<lparr> query.status = None, priority = Some ''high'' \<rparr>"
        hexObjectId "''42''" 1]
  have r1: "enveloped (snd (getAllTodos \<lparr> query.status = None, priority = Some ''high'' \<rparr> store))
      \<and> enveloped (snd (getTodoById hexObjectId ''42'' store))
      \<and> enveloped (snd (updateTodo hexObjectId ''42'' no_fields 1 store))"
    by simp
  from envelope_except_delete
    [of castFailed "no_fields\<lparr> fields.title := Some (JStr ''ab'') \<rparr>" 1 1 store
        "\<lparr> query.status = None, priority = Some ''high'' \<rparr>"
        hexObjectId "''000000000000000000000000''" 1] e
  have r2: "enveloped (snd (createTodo castFailed (no_fields\<lparr> fields.title := Some (JStr ''ab'') \<rparr>) 1 1 store))
      \<and> snd (deleteTodo hexObjectId ''000000000000000000000000'' store) = send_empty 204"
    by simp
  from envelope_except_delete
    [of castFailed no_fields 1 1 store "\<lparr> query.status = None, priority = Some ''high'' \<rparr>"
        hexObjectId "''00000000000000000000002a''" 1] a
  have r3: "enveloped (snd (deleteTodo hexObjectId ''00000000000000000000002a'' store))"
    by simp
  from r1 r2 r3 c h show ?thesis
    by blast
qed

subsection \<open>Invariants\<close>

text \<open>
  C9 fails on the code. The schema restricts \<open>priority\<close> to low, medium, high by an
  enum validator, and the validator lets \<^verbatim>\<open>null\<close> through; the handlers pass on every
  value that is not \<^verbatim>\<open>undefined\<close>. So an update (and a create) that supplies
  \<^verbatim>\<open>"priority": null\<close> is answered with success and leaves a stored record whose
  priority is none of the three values.
\<close>

theorem updateTodo_stores_null_priority:
  "updateTodo hexObjectId ''000000000000000000000001''
       (no_fields\<lparr> fields.priority := Some JNull \<rparr>) 5 store =
     (store\<lparr> todos := [milk, call\<lparr> todo.priority := None, updatedAt := 45 \<rparr>], clock := 45 \<rparr>,
      send_json 200
        (response True ''Todo updated successfully''
           (Doc (call\<lparr> todo.priority := None, updatedAt := 45 \<rparr>)))) \<and>
   \<not> valid_record (call\<lparr> todo.priority := None, updatedAt := 45 \<rparr>) \<and>
   statusCode (snd (createTodo castFailed
       (no_fields\<lparr> fields.title := Some (JStr ''Buy milk''), fields.priority := Some JNull \<rparr>)
       1 1 store)) = 201 \<and>
   map todo.priority
     (todos (serve castFailed hexObjectId
        [POST (no_fields\<lparr> fields.title := Some (JStr ''Buy milk''),
                          fields.priority := Some JNull \<rparr>) 1 1,
         PATCH ''000000000000000000000001''
           (no_fields\<lparr> fields.priority := Some JNull \<rparr>) 5]
        store)) = [Some ''medium'', None, None]"
  by (simp add: updateTodo_def createTodo_def isValidObjectId_def Todo_findByIdAndUpdate_def
      Todo_create_def ObjectId_generate_def Date_now_def Let_def
      castFields_def castFailures_def validate_def validate_title_def validateUpdate_def
      validate_priority_def applyUpdate_def valid_record_def send_json_def
      trim_def isWhiteSpace_def
      hexObjectId_def hexDigit_def no_fields_def store_def milk_def call_def
      del: castFailures_Nil)

end
